theory Spec2Isabelle
  imports Main
begin

section \<open>Values shared by the whole model\<close>

text \<open>
  A Go \<open>error\<close> is represented by its message; \<open>nil\<close> is \<open>None\<close>.
  A call either returns, panics (with the runtime's message) or blocks for ever.
\<close>

type_synonym error = string

datatype 'a outcome = Returned 'a | Panicked string | Blocked

datatype level = Info | Warn | Error

datatype dbkind = MySQL | Redis | PostgreSQL | MongoDB | SQLite | MSSQL | InfluxDB2

text \<open>
  The settings handed to the tunnel library by \<open>openTunneling\<close>:
  \<open>sshtun.New(localPort, server, remotePort)\<close>, then \<open>SetPort\<close>, \<open>SetUser\<close>,
  \<open>SetPassword\<close>, \<open>SetKeyFile\<close> (only for a non-empty key file),
  \<open>SetRemoteEndpoint\<close> and \<open>SetLocalEndpoint\<close>.
\<close>

record tunnel_settings =
  tun_localPort :: int
  tun_server :: string
  tun_remotePort :: int
  tun_port :: int
  tun_user :: string
  tun_password :: string
  tun_keyFile :: "string option"
  tun_remoteEndpoint :: "string \<times> int"
  tun_localEndpoint :: "string \<times> int"

text \<open>
  Everything the controller does to the outside world, in the order it does it.
  \<open>Log tag lvl args\<close> is a line of the logger with that tag (the empty tag is the
  package-level logger); a formatted line has one argument, \<open>logger.Info(a, b)\<close> has two.
  \<open>RecvTunnelStart\<close> and \<open>SendTunnelEnd\<close> are the controller's receive and send on the two
  channels; the last four events belong to the background tasks of the tunnel: the
  connect task's send and receive on \<open>cTunnelStart\<close>, and the stop watcher's receive on
  \<open>cTunnelEnd\<close> and its call of \<open>sshTun.Stop()\<close>.
\<close>

datatype event =
    Log string level "string list"
  | MkdirP string
  | Exec string "string list"
  | Init dbkind
  | Perform dbkind
  | OpenTunnel tunnel_settings
  | RecvTunnelStart
  | SendTunnelEnd
  | SendTunnelStart
  | DrainTunnelStart
  | RecvTunnelEnd
  | StopTunnel

section \<open>Configuration\<close>

text \<open>
  A viper instance is used through its two accessors only. Both are total in Go
  (a missing key gives the empty string, respectively zero).
\<close>

record Viper =
  GetString :: "string \<Rightarrow> string"
  GetInt :: "string \<Rightarrow> int"

text \<open>
  \<open>config.SubConfig\<close> and \<open>config.ModelConfig\<close> are declared outside the files at hand;
  the fields below are the ones the code reads.
\<close>

record SubConfig =
  Name :: string
  Type :: string
  Viper :: Viper

record ModelConfig =
  Name :: string
  DumpPath :: string
  WorkDir :: string
  Databases :: "SubConfig list"

text \<open>A buffered channel of \<open>struct{}\<close>: its capacity and the number of queued signals.\<close>

record chan =
  chan_cap :: nat
  chan_len :: nat

definition make_chan :: "nat \<Rightarrow> chan" where
  "make_chan n = \<lparr>chan_cap = n, chan_len = 0\<rparr>"

record Base =
  model :: ModelConfig
  dbConfig :: SubConfig
  viper :: Viper
  name :: string
  dumpPath :: string
  sshHost :: string
  sshPort :: int
  sshUser :: string
  sshPassword :: string
  sshKeyFile :: string
  tunnelLocalPort :: int
  tunnelRemotePort :: int
  tunnelDbHost :: string
  cTunnelEnd :: "chan option"
  cTunnelStart :: "chan option"

section \<open>The environment\<close>

text \<open>
  What the code calls but does not define: the process-wide viper instance behind
  \<open>viper.GetString\<close> and \<open>viper.GetInt\<close>, the tokenizer \<open>shlex.Split\<close>,
  \<open>path.Join\<close>, \<open>helper.Exec\<close>, \<open>helper.MkdirP\<close>, the performers' \<open>init\<close> and
  \<open>perform\<close>, and whether a signal arrives on \<open>cTunnelStart\<close> while the controller
  waits. An effectful call may answer differently each time: its answer is a function
  of the events so far.
\<close>

record env =
  global_viper :: Viper
  shlex_Split :: "string \<Rightarrow> error + string list"
  path_Join :: "string list \<Rightarrow> string"
  helper_Exec :: "event list \<Rightarrow> string \<Rightarrow> string list \<Rightarrow> error option"
  helper_MkdirP :: "event list \<Rightarrow> string \<Rightarrow> error option"
  db_init :: "event list \<Rightarrow> dbkind \<Rightarrow> Base \<Rightarrow> error option"
  db_perform :: "event list \<Rightarrow> dbkind \<Rightarrow> Base \<Rightarrow> error option"
  tunnel_ready :: "event list \<Rightarrow> bool"

section \<open>Hook runner\<close>

definition HasPrefix :: "string \<Rightarrow> string \<Rightarrow> bool" where
  "HasPrefix s p = (take (length p) s = p)"

definition TrimPrefix :: "string \<Rightarrow> string \<Rightarrow> string" where
  "TrimPrefix s p = (if HasPrefix s p then drop (length p) s else s)"

text \<open>
  \<open>runHook(action, script)\<close>. \<open>c[0]\<close> on an empty token list is the runtime panic
  of an index out of range; \<open>c[1:]\<close> is out of range there as well, and the message
  stands for whichever of the two checks the runtime makes first.
\<close>

definition runHook :: "env \<Rightarrow> event list \<Rightarrow> string \<Rightarrow> string \<Rightarrow> event list \<times> error option outcome" where
  "runHook E tr action script =
    (if length script = 0 then (tr, Returned None)
     else
       let tr1 = tr @ [Log ''Database'' Info [''Run '' @ action]];
           ignoreError = HasPrefix script ''-'';
           script' = TrimPrefix script ''-''
       in case shlex_Split E script' of
            Inl err \<Rightarrow>
              if ignoreError
              then (tr1 @ [Log ''Database'' Info [''Skip '' @ action @ '' with error: '' @ err]],
                    Returned None)
              else (tr1, Returned (Some err))
          | Inr c \<Rightarrow>
              (case c of
                 [] \<Rightarrow> (tr1, Panicked ''index out of range [0] with length 0'')
               | c0 # cs \<Rightarrow>
                   let tr2 = tr1 @ [Exec c0 cs] in
                   (case helper_Exec E tr1 c0 cs of
                      Some err \<Rightarrow>
                        if ignoreError
                        then (tr2 @ [Log ''Database'' Info
                                       [''Run '' @ action @ '' failed: '' @ err @ '', ignore it'']],
                              Returned None)
                        else (tr2, Returned (Some (''Run '' @ action @ '' failed: '' @ err)))
                    | None \<Rightarrow>
                        (tr2 @ [Log ''Database'' Info [''Run '' @ action @ '' succeeded'']],
                         Returned None))))"

section \<open>Orchestration context\<close>

text \<open>
  \<open>newBase(model, dbConfig)\<close>. The eight SSH and tunnel settings are read with the
  package-level \<open>viper.GetString\<close> and \<open>viper.GetInt\<close>, that is from the process-wide
  instance; the instance of the target is only stored in the field \<open>viper\<close>.
  Both branches after \<open>helper.MkdirP\<close> return the same context.
\<close>

definition newBase :: "env \<Rightarrow> event list \<Rightarrow> ModelConfig \<Rightarrow> SubConfig \<Rightarrow> event list \<times> Base" where
  "newBase E tr m cfg =
    (let base = \<lparr>model = m, dbConfig = cfg, viper = SubConfig.Viper cfg,
                 name = SubConfig.Name cfg, dumpPath = '''', sshHost = '''', sshPort = 0,
                 sshUser = '''', sshPassword = '''', sshKeyFile = '''',
                 tunnelLocalPort = 0, tunnelRemotePort = 0, tunnelDbHost = '''',
                 cTunnelEnd = None, cTunnelStart = None\<rparr>;
         base = base\<lparr>sshHost := GetString (global_viper E) ''ssh_host''\<rparr>;
         base = base\<lparr>sshPort := GetInt (global_viper E) ''ssh_port''\<rparr>;
         base = base\<lparr>sshUser := GetString (global_viper E) ''ssh_user''\<rparr>;
         base = base\<lparr>sshPassword := GetString (global_viper E) ''ssh_password''\<rparr>;
         base = base\<lparr>sshKeyFile := GetString (global_viper E) ''ssh_key_file''\<rparr>;
         base = base\<lparr>tunnelDbHost := GetString (global_viper E) ''tunnel_db_host''\<rparr>;
         base = base\<lparr>tunnelRemotePort := GetInt (global_viper E) ''tunnel_remote_port''\<rparr>;
         base = base\<lparr>tunnelLocalPort := GetInt (global_viper E) ''tunnel_local_port''\<rparr>;
         base = base\<lparr>dumpPath := path_Join E [DumpPath m, SubConfig.Type cfg, name base]\<rparr>
     in case helper_MkdirP E tr (dumpPath base) of
          Some err \<Rightarrow>
            (tr @ [MkdirP (dumpPath base),
                   Log '''' Error [''Failed to mkdir dump path '' @ dumpPath base @ '': '' @ err]],
             base)
        | None \<Rightarrow> (tr @ [MkdirP (dumpPath base)], base))"

section \<open>Performer dispatch\<close>

text \<open>The \<open>switch dbConfig.Type\<close> of \<open>runModel\<close>; \<open>None\<close> is its \<open>default\<close> branch.\<close>

definition dispatch :: "string \<Rightarrow> dbkind option" where
  "dispatch t =
    (if t = ''mysql'' then Some MySQL
     else if t = ''redis'' then Some Redis
     else if t = ''postgresql'' then Some PostgreSQL
     else if t = ''mongodb'' then Some MongoDB
     else if t = ''sqlite'' then Some SQLite
     else if t = ''mssql'' then Some MSSQL
     else if t = ''influxdb2'' then Some InfluxDB2
     else None)"

section \<open>Tunnel, as the controller sees it\<close>

text \<open>
  \<open>openTunneling\<close> makes the two single-slot channels, configures the tunnel and starts
  the two background tasks (modelled in the last section). Its result is ignored by
  \<open>runModel\<close> and left out here.
\<close>

definition tunnelSettings :: "Base \<Rightarrow> tunnel_settings" where
  "tunnelSettings db =
    \<lparr>tun_localPort = tunnelLocalPort db, tun_server = sshHost db,
     tun_remotePort = tunnelRemotePort db, tun_port = sshPort db,
     tun_user = sshUser db, tun_password = sshPassword db,
     tun_keyFile = (if sshKeyFile db \<noteq> '''' then Some (sshKeyFile db) else None),
     tun_remoteEndpoint = (tunnelDbHost db, tunnelRemotePort db),
     tun_localEndpoint = (''localhost'', tunnelLocalPort db)\<rparr>"

definition openTunneling :: "event list \<Rightarrow> Base \<Rightarrow> event list \<times> Base" where
  "openTunneling tr db =
    (tr @ [OpenTunnel (tunnelSettings db)],
     db\<lparr>cTunnelEnd := Some (make_chan 1), cTunnelStart := Some (make_chan 1)\<rparr>)"

text \<open>
  \<open><-base.cTunnelStart\<close>: a receive on a nil channel never returns; on a channel it
  returns once a signal arrives, which is up to the background tasks.
\<close>

definition recvTunnelStart :: "env \<Rightarrow> event list \<Rightarrow> Base \<Rightarrow> event list \<times> unit outcome" where
  "recvTunnelStart E tr db =
    (case cTunnelStart db of
       None \<Rightarrow> (tr, Blocked)
     | Some c \<Rightarrow> if tunnel_ready E tr then (tr @ [RecvTunnelStart], Returned ()) else (tr, Blocked))"

text \<open>
  \<open>closeTunneling\<close>: a send on a nil channel never returns; on a buffered channel it
  returns when there is room (a receiver can only make more room).
\<close>

definition closeTunneling :: "event list \<Rightarrow> Base \<Rightarrow> event list \<times> Base outcome" where
  "closeTunneling tr db =
    (case cTunnelEnd db of
       None \<Rightarrow> (tr, Blocked)
     | Some c \<Rightarrow>
         if chan_len c < chan_cap c
         then (tr @ [SendTunnelEnd],
               Returned (db\<lparr>cTunnelEnd := Some (c\<lparr>chan_len := chan_len c + 1\<rparr>)\<rparr>))
         else (tr, Blocked))"

section \<open>Orchestration controller\<close>

text \<open>
  The last lines of \<open>runModel\<close> (after perform): the hook's error is returned if there is
  one, and the named result \<open>err\<close> (what \<open>perform\<close> returned) otherwise.
\<close>

definition afterHook :: "env \<Rightarrow> event list \<Rightarrow> string \<Rightarrow> error option \<Rightarrow> event list \<times> error option outcome" where
  "afterHook E tr afterScript err =
    (case runHook E tr ''dump after_script'' afterScript of
       (tr', r) \<Rightarrow>
         (case r of
            Returned res \<Rightarrow>
              (case res of
                 Some herr \<Rightarrow> (tr', Returned (Some herr))
               | None \<Rightarrow> (tr', Returned err))
          | Panicked p \<Rightarrow> (tr', Panicked p)
          | Blocked \<Rightarrow> (tr', Blocked)))"

text \<open>The \<open>if err != nil { ... } else { ... }\<close> of \<open>runModel\<close> and what follows it.\<close>

definition afterPerform :: "env \<Rightarrow> event list \<Rightarrow> string \<Rightarrow> string \<Rightarrow> error option \<Rightarrow> event list \<times> error option outcome" where
  "afterPerform E tr afterScript onExit err =
    (case err of
       Some e \<Rightarrow>
         let tr1 = tr @ [Log ''Database'' Info [''Dump failed'']] in
         if length afterScript = 0 then (tr1, Returned err)
         else if length onExit \<noteq> 0 then
           (if onExit = ''always'' then
              afterHook E (tr1 @ [Log ''Database'' Info [''on_exit is always, start to run after_script'']])
                afterScript err
            else if onExit = ''success'' then
              (tr1 @ [Log ''Database'' Info [''on_exit is success, skip run after_script'']],
               Returned err)
            else if onExit = ''failure'' then
              afterHook E (tr1 @ [Log ''Database'' Info [''on_exit is failure, start to run after_script'']])
                afterScript err
            else (tr1, Returned err))
         else (tr1, Returned err)
     | None \<Rightarrow>
         afterHook E (tr @ [Log ''Database'' Info [''Dump succeeded'']]) afterScript err)"

text \<open>
  From \<open>db.init()\<close> to the end of \<open>runModel\<close>. The performer holds the copy of the context
  made at dispatch; the tunnel is opened and closed on the controller's own \<open>base\<close>.
\<close>

definition performPhase :: "env \<Rightarrow> event list \<Rightarrow> dbkind \<Rightarrow> Base \<Rightarrow> string \<Rightarrow> string \<Rightarrow> event list \<times> error option outcome" where
  "performPhase E tr db base afterScript onExit =
    (case db_init E tr db base of
       Some err \<Rightarrow> (tr @ [Init db], Returned (Some err))
     | None \<Rightarrow>
         (case (if sshHost base \<noteq> '''' then
                  (case openTunneling (tr @ [Init db]) base of
                     (tr', base') \<Rightarrow>
                       (case recvTunnelStart E tr' base' of
                          (tr'', r) \<Rightarrow>
                            (case r of
                               Returned u \<Rightarrow> (tr'', Returned base')
                             | Panicked p \<Rightarrow> (tr'', Panicked p)
                             | Blocked \<Rightarrow> (tr'', Blocked))))
                else (tr @ [Init db], Returned base)) of
            (tr2, opened) \<Rightarrow>
              (case opened of
                 Panicked p \<Rightarrow> (tr2, Panicked p)
               | Blocked \<Rightarrow> (tr2, Blocked)
               | Returned base1 \<Rightarrow>
                   (case (if sshHost base1 \<noteq> '''' then closeTunneling (tr2 @ [Perform db]) base1
                          else (tr2 @ [Perform db], Returned base1)) of
                      (tr4, closed) \<Rightarrow>
                        (case closed of
                           Panicked p \<Rightarrow> (tr4, Panicked p)
                         | Blocked \<Rightarrow> (tr4, Blocked)
                         | Returned base2 \<Rightarrow>
                             afterPerform E tr4 afterScript onExit (db_perform E tr2 db base))))))"

text \<open>\<open>runModel(model, dbConfig)\<close>.\<close>

definition runModel :: "env \<Rightarrow> event list \<Rightarrow> ModelConfig \<Rightarrow> SubConfig \<Rightarrow> event list \<times> error option outcome" where
  "runModel E tr m cfg =
    (case newBase E tr m cfg of
       (tr0, base) \<Rightarrow>
         (case dispatch (SubConfig.Type cfg) of
            None \<Rightarrow>
              (tr0 @ [Log ''Database'' Warn
                        [''model: '' @ ModelConfig.Name m @ '' databases.'' @ SubConfig.Name cfg
                         @ '' config `type: '' @ SubConfig.Type cfg @ ''`, but is not implement'']],
               Returned None)
          | Some db \<Rightarrow>
              let tr1 = tr0 @ [Log ''Database'' Info
                                 [''=> database | '' @ SubConfig.Type cfg @ '': '' @ name base]];
                  beforeScript = GetString (SubConfig.Viper cfg) ''before_script''
              in (case runHook E tr1 ''dump before_script'' beforeScript of
                    (tr2, r) \<Rightarrow>
                      (case r of
                         Panicked p \<Rightarrow> (tr2, Panicked p)
                       | Blocked \<Rightarrow> (tr2, Blocked)
                       | Returned res \<Rightarrow>
                           (case res of
                              Some err \<Rightarrow> (tr2, Returned (Some err))
                            | None \<Rightarrow>
                                let afterScript = GetString (SubConfig.Viper cfg) ''after_script'';
                                    onExit = GetString (SubConfig.Viper cfg) ''on_exit''
                                in performPhase E tr2 db base afterScript onExit)))))"

text \<open>\<open>Run(model)\<close>: the loop over \<open>model.Databases\<close>, then the function itself.\<close>

fun RunLoop :: "env \<Rightarrow> event list \<Rightarrow> ModelConfig \<Rightarrow> SubConfig list \<Rightarrow> event list \<times> error option outcome" where
  "RunLoop E tr m [] = (tr, Returned None)"
| "RunLoop E tr m (dbCfg # rest) =
    (case runModel E tr m dbCfg of
       (tr', r) \<Rightarrow>
         (case r of
            Returned res \<Rightarrow>
              (case res of
                 Some err \<Rightarrow> (tr', Returned (Some err))
               | None \<Rightarrow> RunLoop E tr' m rest)
          | Panicked p \<Rightarrow> (tr', Panicked p)
          | Blocked \<Rightarrow> (tr', Blocked)))"

definition Run :: "env \<Rightarrow> event list \<Rightarrow> ModelConfig \<Rightarrow> event list \<times> error option outcome" where
  "Run E tr m =
    (if length (Databases m) = 0 then (tr, Returned None)
     else RunLoop E tr m (Databases m))"

section \<open>Local storage\<close>

text \<open>
  \<open>storage.Local\<close>: the fields of the embedded storage \<open>Base\<close> that the file reads,
  and \<open>path\<close>.
\<close>

record Local =
  storage_model :: ModelConfig
  storage_viper :: "Viper option"
  archivePath :: string
  path :: string

definition download :: "Local \<Rightarrow> string \<Rightarrow> string \<times> error option" where
  "download s fileKey = ('''', Some ''Local is not support download'')"

section \<open>Background tasks of the tunnel\<close>

text \<open>
  After \<open>openTunneling\<close> three tasks share the two channels: the controller (waiting for
  the ready signal, then \<open>perform\<close>, then \<open>closeTunneling\<close>), the stop watcher
  (\<open><-db.cTunnelEnd\<close>, then \<open>sshTun.Stop()\<close>) and the connect task
  (\<open>sshTun.Start\<close>, then the handling of its error). What the tunnel library does inside
  \<open>Start\<close> is given from outside: the connection states it reports to the callback set with
  \<open>SetConnState\<close>, in order, and the error it returns.
\<close>

datatype ConnState = StateStopped | StateStarting | StateStarted

datatype task = Controller | StopWatcher | Connect

datatype ctl_pc = CtlWaitReady | CtlPerform | CtlSendStop | CtlDone

datatype watch_pc = WatchWaitEnd | WatchStop | WatchDone

datatype conn_pc =
    ConnStart "ConnState list"
  | ConnPublish "ConnState list"
  | ConnCheckLen
  | ConnDrain
  | ConnDone

record tunnel_sys =
  sys_cTunnelStart :: chan
  sys_cTunnelEnd :: chan
  sys_ctl :: ctl_pc
  sys_watch :: watch_pc
  sys_conn :: conn_pc
  sys_startErr :: "error option"
  sys_db :: dbkind
  sys_trace :: "event list"

definition chan_send :: "chan \<Rightarrow> chan" where
  "chan_send c = c\<lparr>chan_len := chan_len c + 1\<rparr>"

definition chan_recv :: "chan \<Rightarrow> chan" where
  "chan_recv c = c\<lparr>chan_len := chan_len c - 1\<rparr>"

text \<open>
  One step of each task. A task that is blocked (a receive on an empty channel, a send on
  a full one) or has finished leaves the state as it is.
\<close>

definition step_controller :: "tunnel_sys \<Rightarrow> tunnel_sys" where
  "step_controller s =
    (case sys_ctl s of
       CtlWaitReady \<Rightarrow>
         if 0 < chan_len (sys_cTunnelStart s)
         then s\<lparr>sys_cTunnelStart := chan_recv (sys_cTunnelStart s), sys_ctl := CtlPerform,
                 sys_trace := sys_trace s @ [RecvTunnelStart]\<rparr>
         else s
     | CtlPerform \<Rightarrow> s\<lparr>sys_ctl := CtlSendStop, sys_trace := sys_trace s @ [Perform (sys_db s)]\<rparr>
     | CtlSendStop \<Rightarrow>
         if chan_len (sys_cTunnelEnd s) < chan_cap (sys_cTunnelEnd s)
         then s\<lparr>sys_cTunnelEnd := chan_send (sys_cTunnelEnd s), sys_ctl := CtlDone,
                 sys_trace := sys_trace s @ [SendTunnelEnd]\<rparr>
         else s
     | CtlDone \<Rightarrow> s)"

definition step_watcher :: "tunnel_sys \<Rightarrow> tunnel_sys" where
  "step_watcher s =
    (case sys_watch s of
       WatchWaitEnd \<Rightarrow>
         if 0 < chan_len (sys_cTunnelEnd s)
         then s\<lparr>sys_cTunnelEnd := chan_recv (sys_cTunnelEnd s), sys_watch := WatchStop,
                 sys_trace := sys_trace s @ [RecvTunnelEnd]\<rparr>
         else s
     | WatchStop \<Rightarrow>
         s\<lparr>sys_watch := WatchDone,
            sys_trace := sys_trace s @ [Log ''TUNNELING'' Info [''tunneling is Stop''], StopTunnel]\<rparr>
     | WatchDone \<Rightarrow> s)"

text \<open>
  The connect task. \<open>ConnStart sts\<close>: inside \<open>sshTun.Start\<close>, with the states \<open>sts\<close> still
  to be reported; each report runs the callback, whose \<open>StateStarted\<close> case logs and then
  sends on \<open>cTunnelStart\<close> (\<open>ConnPublish\<close>). With no state left \<open>Start\<close> returns; on an error
  the task logs it and looks at \<open>len(db.cTunnelStart)\<close> (\<open>ConnCheckLen\<close>), receiving only
  if that is positive (\<open>ConnDrain\<close>).
\<close>

definition step_connect :: "tunnel_sys \<Rightarrow> tunnel_sys" where
  "step_connect s =
    (case sys_conn s of
       ConnStart sts \<Rightarrow>
         (case sts of
            [] \<Rightarrow>
              (case sys_startErr s of
                 None \<Rightarrow> s\<lparr>sys_conn := ConnDone\<rparr>
               | Some err \<Rightarrow>
                   s\<lparr>sys_conn := ConnCheckLen,
                      sys_trace := sys_trace s @ [Log ''TUNNELING'' Info [''error tunneling:'', err]]\<rparr>)
          | st # rest \<Rightarrow>
              (case st of
                 StateStarting \<Rightarrow>
                   s\<lparr>sys_conn := ConnStart rest,
                      sys_trace := sys_trace s @ [Log ''TUNNELING'' Info [''Tunneling is Starting'']]\<rparr>
               | StateStarted \<Rightarrow>
                   s\<lparr>sys_conn := ConnPublish rest,
                      sys_trace := sys_trace s @ [Log ''TUNNELING'' Info [''Tunneling is Started'']]\<rparr>
               | StateStopped \<Rightarrow>
                   s\<lparr>sys_conn := ConnStart rest,
                      sys_trace := sys_trace s @ [Log ''TUNNELING'' Info [''Tunneling is Stopped'']]\<rparr>))
     | ConnPublish rest \<Rightarrow>
         if chan_len (sys_cTunnelStart s) < chan_cap (sys_cTunnelStart s)
         then s\<lparr>sys_cTunnelStart := chan_send (sys_cTunnelStart s), sys_conn := ConnStart rest,
                 sys_trace := sys_trace s @ [SendTunnelStart]\<rparr>
         else s
     | ConnCheckLen \<Rightarrow>
         if 0 < chan_len (sys_cTunnelStart s) then s\<lparr>sys_conn := ConnDrain\<rparr>
         else s\<lparr>sys_conn := ConnDone\<rparr>
     | ConnDrain \<Rightarrow>
         if 0 < chan_len (sys_cTunnelStart s)
         then s\<lparr>sys_cTunnelStart := chan_recv (sys_cTunnelStart s), sys_conn := ConnDone,
                 sys_trace := sys_trace s @ [DrainTunnelStart]\<rparr>
         else s
     | ConnDone \<Rightarrow> s)"

fun step :: "task \<Rightarrow> tunnel_sys \<Rightarrow> tunnel_sys" where
  "step Controller s = step_controller s"
| "step StopWatcher s = step_watcher s"
| "step Connect s = step_connect s"

text \<open>An interleaving is the list of the tasks that take the next step, one after the other.\<close>

fun run_schedule :: "task list \<Rightarrow> tunnel_sys \<Rightarrow> tunnel_sys" where
  "run_schedule [] s = s"
| "run_schedule (t # ts) s = run_schedule ts (step t s)"

text \<open>
  The state in which \<open>openTunneling\<close> leaves the three tasks: two fresh single-slot
  channels, nothing done yet.
\<close>

definition tunnel_init :: "dbkind \<Rightarrow> ConnState list \<Rightarrow> error option \<Rightarrow> tunnel_sys" where
  "tunnel_init db sts err =
    \<lparr>sys_cTunnelStart = make_chan 1, sys_cTunnelEnd = make_chan 1,
     sys_ctl = CtlWaitReady, sys_watch = WatchWaitEnd, sys_conn = ConnStart sts,
     sys_startErr = err, sys_db = db, sys_trace = []\<rparr>"

text \<open>
  What holds of the three tasks at every moment when \<open>Start\<close> is to fail with \<open>err\<close> and
  reports no \<open>StateStarted\<close>: the ready channel is empty and untouched, the controller
  is still waiting, and the connect task is inside \<open>Start\<close> or has logged the error.
\<close>

definition failed_start_inv :: "error \<Rightarrow> tunnel_sys \<Rightarrow> bool" where
  "failed_start_inv err s \<longleftrightarrow>
     chan_len (sys_cTunnelStart s) = 0 \<and> sys_ctl s = CtlWaitReady \<and>
     sys_startErr s = Some err \<and>
     SendTunnelStart \<notin> set (sys_trace s) \<and>
     DrainTunnelStart \<notin> set (sys_trace s) \<and>
     RecvTunnelStart \<notin> set (sys_trace s) \<and>
     (case sys_conn s of
        ConnStart sts \<Rightarrow> StateStarted \<notin> set sts
      | ConnPublish sts \<Rightarrow> False
      | ConnCheckLen \<Rightarrow> Log ''TUNNELING'' Info [''error tunneling:'', err] \<in> set (sys_trace s)
      | ConnDrain \<Rightarrow> False
      | ConnDone \<Rightarrow> Log ''TUNNELING'' Info [''error tunneling:'', err] \<in> set (sys_trace s))"

section \<open>Observations on traces\<close>

text \<open>
  The events of a trace that come from the performer and the tunnel (\<open>init\<close>, the opening
  of the tunnel, the wait for its ready signal, \<open>perform\<close>, the stop signal), and the
  events that only a hook leaves: an executed command, or a log line that starts with
  \<open>Run\<close> (the hook logs \<open>Run <action>\<close> before it looks at a non-empty script).
\<close>

definition is_performer_event :: "event \<Rightarrow> bool" where
  "is_performer_event e =
    (case e of
       Init db \<Rightarrow> True
     | Perform db \<Rightarrow> True
     | OpenTunnel ts \<Rightarrow> True
     | RecvTunnelStart \<Rightarrow> True
     | SendTunnelEnd \<Rightarrow> True
     | _ \<Rightarrow> False)"

definition performer_events :: "event list \<Rightarrow> event list" where
  "performer_events tr = filter is_performer_event tr"

definition is_hook_event :: "event \<Rightarrow> bool" where
  "is_hook_event e =
    (case e of
       Exec c args \<Rightarrow> True
     | Log t l a \<Rightarrow> (case a of [x] \<Rightarrow> HasPrefix x ''Run '' | _ \<Rightarrow> False)
     | _ \<Rightarrow> False)"

definition hook_events :: "event list \<Rightarrow> event list" where
  "hook_events tr = filter is_hook_event tr"

text \<open>
  "The hook's error, else \<open>err\<close>": what \<open>runModel\<close> is to return after an after-script
  hook with outcome \<open>r\<close>, when \<open>perform\<close> returned \<open>err\<close>. A hook that does not return
  passes on as it is.
\<close>

definition hookErrorElse :: "error option \<Rightarrow> error option outcome \<Rightarrow> error option outcome" where
  "hookErrorElse err r = (case r of Returned None \<Rightarrow> Returned err | _ \<Rightarrow> r)"

text \<open>
  The trace after \<open>runModel\<close> has been run on each target of a list, one after the
  other.
\<close>

definition runEach :: "env \<Rightarrow> ModelConfig \<Rightarrow> event list \<Rightarrow> SubConfig list \<Rightarrow> event list" where
  "runEach E m tr ts = foldl (\<lambda>tr' t. fst (runModel E tr' m t)) tr ts"

section \<open>A concrete environment\<close>

text \<open>
  Inputs on which the definitions above are evaluated: viper instances given by their
  key/value pairs, a tokenizer that cuts at spaces and rejects a double quote (on the
  scripts used below it answers what \<open>shlex.Split\<close> answers: no token for the empty
  script, the words of a script without quotes), a join with slashes, a shell in which
  \<open>exit\<close> is not an executable, and performers that succeed.
\<close>

definition viper_of :: "(string \<times> string) list \<Rightarrow> (string \<times> int) list \<Rightarrow> Viper" where
  "viper_of ss ns =
    \<lparr>GetString = (\<lambda>k. case map_of ss k of Some v \<Rightarrow> v | None \<Rightarrow> ''''),
     GetInt = (\<lambda>k. case map_of ns k of Some v \<Rightarrow> v | None \<Rightarrow> 0)\<rparr>"

fun fields :: "string \<Rightarrow> string \<Rightarrow> string list" where
  "fields acc [] = (if acc = [] then [] else [acc])"
| "fields acc (c # cs) =
    (if c = CHR '' '' then (if acc = [] then fields [] cs else acc # fields [] cs)
     else fields (acc @ [c]) cs)"

definition sample_Split :: "string \<Rightarrow> error + string list" where
  "sample_Split s =
    (if CHR 0x22 \<in> set s then Inl ''EOF found when expecting closing quote''
     else Inr (fields [] s))"

fun sample_Join :: "string list \<Rightarrow> string" where
  "sample_Join [] = ''''"
| "sample_Join [x] = x"
| "sample_Join (x # y # ys) = x @ ''/'' @ sample_Join (y # ys)"

definition sample_env :: env where
  "sample_env =
    \<lparr>global_viper = viper_of [] [],
     shlex_Split = sample_Split,
     path_Join = sample_Join,
     helper_Exec = (\<lambda>tr cmd args. if cmd = ''exit'' then Some ''executable file not found'' else None),
     helper_MkdirP = (\<lambda>tr p. None),
     db_init = (\<lambda>tr db base. None),
     db_perform = (\<lambda>tr db base. None),
     tunnel_ready = (\<lambda>tr. True)\<rparr>"

text \<open>
  A model with three targets: a MySQL target with an ignore-error after script, a Redis
  target whose before script fails, and a target of a type that has no performer but a
  full SSH configuration.
\<close>

definition sample_mysql :: SubConfig where
  "sample_mysql =
    \<lparr>SubConfig.Name = ''main'', Type = ''mysql'',
     Viper = viper_of [(''after_script'', ''-notify.sh'')] []\<rparr>"

definition sample_redis :: SubConfig where
  "sample_redis =
    \<lparr>SubConfig.Name = ''cache'', Type = ''redis'',
     Viper = viper_of [(''before_script'', ''exit 1'')] []\<rparr>"

definition sample_clickhouse :: SubConfig where
  "sample_clickhouse =
    \<lparr>SubConfig.Name = ''events'', Type = ''clickhouse'',
     Viper = viper_of [(''ssh_host'', ''bastion''), (''ssh_user'', ''backup'')]
                      [(''ssh_port'', 22), (''tunnel_remote_port'', 9000), (''tunnel_local_port'', 19000)]\<rparr>"

definition sample_model :: ModelConfig where
  "sample_model =
    \<lparr>ModelConfig.Name = ''daily'', DumpPath = ''/tmp/dump'', WorkDir = ''/tmp'',
     Databases = [sample_mysql, sample_redis, sample_clickhouse]\<rparr>"

text \<open>
  A MySQL target whose after script runs on failure only, and an environment in which
  every dump fails.
\<close>

definition sample_mysql_notify :: SubConfig where
  "sample_mysql_notify =
    \<lparr>SubConfig.Name = ''orders'', Type = ''mysql'',
     Viper = viper_of [(''after_script'', ''notify.sh failed''), (''on_exit'', ''failure'')] []\<rparr>"

definition failing_env :: env where
  "failing_env = sample_env\<lparr>db_perform := (\<lambda>tr db base. Some ''mysqldump: exit status 2'')\<rparr>"

text \<open>
  Two PostgreSQL targets that declare different SSH hosts in their own configuration, and
  an environment whose process-wide viper instance holds SSH and tunnel settings.
\<close>

definition sample_pg_a :: SubConfig where
  "sample_pg_a =
    \<lparr>SubConfig.Name = ''users'', Type = ''postgresql'',
     Viper = viper_of [(''ssh_host'', ''bastion-a''), (''ssh_user'', ''backup''),
                       (''tunnel_db_host'', ''10.0.0.5'')]
                      [(''ssh_port'', 22), (''tunnel_remote_port'', 5432),
                       (''tunnel_local_port'', 15432)]\<rparr>"

definition sample_pg_b :: SubConfig where
  "sample_pg_b =
    \<lparr>SubConfig.Name = ''billing'', Type = ''postgresql'',
     Viper = viper_of [(''ssh_host'', ''bastion-b''), (''ssh_user'', ''backup''),
                       (''tunnel_db_host'', ''10.0.1.5'')]
                      [(''ssh_port'', 2222), (''tunnel_remote_port'', 5432),
                       (''tunnel_local_port'', 25432)]\<rparr>"

definition tunnel_env :: env where
  "tunnel_env =
    sample_env\<lparr>global_viper :=
      viper_of [(''ssh_host'', ''bastion''), (''ssh_user'', ''backup''), (''tunnel_db_host'', ''10.0.0.5'')]
               [(''ssh_port'', 22), (''tunnel_remote_port'', 5432), (''tunnel_local_port'', 15432)]\<rparr>"

text \<open>A MySQL target whose after script is the ignore-error prefix alone.\<close>

definition sample_mysql_dash :: SubConfig where
  "sample_mysql_dash =
    \<lparr>SubConfig.Name = ''main'', Type = ''mysql'',
     Viper = viper_of [(''after_script'', ''-''), (''on_exit'', ''always'')] []\<rparr>"

section \<open>Properties\<close>

subsection \<open>Local storage\<close>

text \<open>
  C9. For every file key, \<open>download\<close> of the local storage backend returns the empty
  local path together with an error, the one that says that the operation is not
  supported: it never succeeds.
\<close>

theorem download_unsupported:
  "fst (download s fileKey) = '''' \<and>
   snd (download s fileKey) = Some ''Local is not support download''"
  by (simp add: download_def)

subsection \<open>Hook runner\<close>

text \<open>
  C10. For every non-empty script whose content, after the optional \<open>-\<close> is stripped,
  tokenizes to the empty token list, \<open>runHook\<close> reads the first token of that list without
  a guard: it logs the action and then panics with an index out of range; it does not
  return, and nothing is executed.
\<close>

theorem runHook_empty_tokens_panics:
  assumes "script \<noteq> ''''"
    and "shlex_Split E (TrimPrefix script ''-'') = Inr []"
  shows "runHook E tr action script =
           (tr @ [Log ''Database'' Info [''Run '' @ action]],
            Panicked ''index out of range [0] with length 0'')"
  using assms by (simp add: runHook_def Let_def)

theorem runHook_empty_tokens_panics_witness:
  "''-'' \<noteq> '''' \<and> shlex_Split sample_env (TrimPrefix ''-'' ''-'') = Inr [] \<and>
   runHook sample_env [] ''dump after_script'' ''-'' =
     ([Log ''Database'' Info [''Run dump after_script'']],
      Panicked ''index out of range [0] with length 0'')"
proof -
  have h1: "''-'' \<noteq> ''''" by simp
  have h2: "shlex_Split sample_env (TrimPrefix ''-'' ''-'') = Inr []"
    by (simp add: sample_env_def sample_Split_def TrimPrefix_def HasPrefix_def)
  show ?thesis
    using h1 h2 runHook_empty_tokens_panics [OF h1 h2, of "[]" "''dump after_script''"]
    by simp
qed

text \<open>
  A script with the prefix \<open>-\<close> never makes \<open>runHook\<close> return an error, and \<open>runHook\<close>
  returns nil whenever the tokenizer fails or gives at least one token, whatever the
  command does.
\<close>

lemma runHook_ignore_no_error:
  assumes "HasPrefix script ''-''"
  shows "snd (runHook E tr action script) \<noteq> Returned (Some err)"
  using assms
  by (auto simp add: runHook_def Let_def split: sum.splits list.splits option.splits)

lemma runHook_ignore_returns_nil:
  assumes "HasPrefix script ''-''"
    and "shlex_Split E (TrimPrefix script ''-'') \<noteq> Inr []"
  shows "snd (runHook E tr action script) = Returned None"
  using assms
  by (auto simp add: runHook_def Let_def split: sum.splits list.splits option.splits)

text \<open>
  C6. For every script with the prefix \<open>-\<close>, \<open>runHook\<close> is to return nil. At the script
  that is the prefix alone the tokenizer has nothing to cut, and \<open>runHook\<close> does not return
  nil: it panics.
\<close>

theorem runHook_dash_alone_panics:
  "HasPrefix ''-'' ''-'' \<and> shlex_Split sample_env (TrimPrefix ''-'' ''-'') = Inr [] \<and>
   snd (runHook sample_env [] ''dump after_script'' ''-'') =
     Panicked ''index out of range [0] with length 0''"
  by (simp add: runHook_def sample_env_def sample_Split_def TrimPrefix_def HasPrefix_def)

subsection \<open>Orchestration controller: one target\<close>

text \<open>Facts about the context and about the events a hook can leave.\<close>

lemmas sample_defs =
  sample_env_def sample_model_def sample_mysql_def sample_redis_def sample_clickhouse_def
  viper_of_def sample_Split_def HasPrefix_def TrimPrefix_def

lemma newBase_name: "name (snd (newBase E tr m cfg)) = SubConfig.Name cfg"
  by (simp add: newBase_def Let_def split: option.splits)

lemma newBase_performer_events:
  "performer_events (fst (newBase E tr m cfg)) = performer_events tr"
  by (simp add: newBase_def Let_def performer_events_def is_performer_event_def split: option.splits)

lemma newBase_hook_events:
  "hook_events (fst (newBase E tr m cfg)) = hook_events tr"
  by (simp add: newBase_def Let_def hook_events_def is_hook_event_def HasPrefix_def split: option.splits)

lemma runHook_performer_events:
  "performer_events (fst (runHook E tr action script)) = performer_events tr"
  by (simp add: runHook_def Let_def performer_events_def is_performer_event_def
      split: option.splits sum.splits list.splits)

lemma dispatch_None:
  "dispatch t = None \<longleftrightarrow>
   t \<notin> set [''mysql'', ''redis'', ''postgresql'', ''mongodb'', ''sqlite'', ''mssql'', ''influxdb2'']"
  by (simp add: dispatch_def)

text \<open>
  C7. For every target of an implemented type whose \<open>before_script\<close> hook returns an
  error, \<open>runModel\<close> returns that error with the trace as the hook left it: nothing
  happens after the hook, so \<open>init\<close> is not called, no tunnel is opened, \<open>perform\<close> is
  not called and the after-script policy is not evaluated.
\<close>

theorem runModel_before_script_fails:
  assumes "dispatch (SubConfig.Type cfg) = Some db"
    and "runHook E
           (fst (newBase E tr m cfg) @
              [Log ''Database'' Info
                 [''=> database | '' @ SubConfig.Type cfg @ '': '' @ SubConfig.Name cfg]])
           ''dump before_script'' (GetString (SubConfig.Viper cfg) ''before_script'')
         = (tr2, Returned (Some err))"
  shows "runModel E tr m cfg = (tr2, Returned (Some err)) \<and>
         performer_events tr2 = performer_events tr"
proof -
  obtain tr0 base where nb: "newBase E tr m cfg = (tr0, base)" by (cases "newBase E tr m cfg")
  have nm: "name base = SubConfig.Name cfg" using newBase_name [of E tr m cfg] by (simp add: nb)
  have r: "runModel E tr m cfg = (tr2, Returned (Some err))"
    using assms by (simp add: runModel_def nb nm Let_def)
  have "performer_events tr2 = performer_events (tr0 @ [Log ''Database'' Info
                 [''=> database | '' @ SubConfig.Type cfg @ '': '' @ SubConfig.Name cfg]])"
    using runHook_performer_events [of E "tr0 @ [Log ''Database'' Info
                 [''=> database | '' @ SubConfig.Type cfg @ '': '' @ SubConfig.Name cfg]]"
                 "''dump before_script''" "GetString (SubConfig.Viper cfg) ''before_script''"] assms(2)
    by (simp add: nb)
  also have "\<dots> = performer_events tr"
    using newBase_performer_events [of E tr m cfg]
    by (simp add: nb performer_events_def is_performer_event_def)
  finally show ?thesis using r by simp
qed

theorem runModel_before_script_fails_witness:
  "dispatch (SubConfig.Type sample_redis) = Some Redis \<and>
   runModel sample_env [] sample_model sample_redis =
     ([MkdirP ''/tmp/dump/redis/cache'',
       Log ''Database'' Info [''=> database | redis: cache''],
       Log ''Database'' Info [''Run dump before_script''],
       Exec ''exit'' [''1'']],
      Returned (Some ''Run dump before_script failed: executable file not found'')) \<and>
   performer_events
     [MkdirP ''/tmp/dump/redis/cache'',
      Log ''Database'' Info [''=> database | redis: cache''],
      Log ''Database'' Info [''Run dump before_script''],
      Exec ''exit'' [''1'']] = []"
proof -
  have d: "dispatch (SubConfig.Type sample_redis) = Some Redis"
    by (simp add: dispatch_def sample_redis_def)
  have nb: "fst (newBase sample_env [] sample_model sample_redis) = [MkdirP ''/tmp/dump/redis/cache'']"
    by (simp add: newBase_def Let_def sample_defs)
  have h: "runHook sample_env
           (fst (newBase sample_env [] sample_model sample_redis) @
              [Log ''Database'' Info
                 [''=> database | '' @ SubConfig.Type sample_redis @ '': '' @ SubConfig.Name sample_redis]])
           ''dump before_script'' (GetString (SubConfig.Viper sample_redis) ''before_script'')
         = ([MkdirP ''/tmp/dump/redis/cache'',
             Log ''Database'' Info [''=> database | redis: cache''],
             Log ''Database'' Info [''Run dump before_script''],
             Exec ''exit'' [''1'']],
            Returned (Some ''Run dump before_script failed: executable file not found''))"
    unfolding nb by (simp add: runHook_def Let_def sample_defs)
  show ?thesis
    using d runModel_before_script_fails [OF d h]
    by (simp add: performer_events_def is_performer_event_def)
qed

subsection \<open>Orchestration controller: all targets\<close>

text \<open>
  The loop of \<open>Run\<close> against \<open>runEach\<close>: if every target returns nil the loop runs them
  all; if target \<open>k\<close> is the first that returns an error the loop stops after it.
\<close>

lemma runEach_Cons: "runEach E m tr (t # ts) = runEach E m (fst (runModel E tr m t)) ts"
  by (simp add: runEach_def)

lemma runEach_Nil: "runEach E m tr [] = tr"
  by (simp add: runEach_def)

lemma RunLoop_all_nil:
  assumes "\<forall>i<length ts. snd (runModel E (runEach E m tr (take i ts)) m (ts ! i)) = Returned None"
  shows "RunLoop E tr m ts = (runEach E m tr ts, Returned None)"
  using assms
proof (induction ts arbitrary: tr)
  case Nil
  show ?case by (simp add: runEach_Nil)
next
  case (Cons t ts)
  from Cons.prems have "snd (runModel E (runEach E m tr (take 0 (t # ts))) m ((t # ts) ! 0)) = Returned None"
    by blast
  then have first: "snd (runModel E tr m t) = Returned None"
    by (simp add: runEach_Nil)
  have rest: "\<forall>i<length ts. snd (runModel E (runEach E m (fst (runModel E tr m t)) (take i ts)) m (ts ! i)) = Returned None"
  proof (intro allI impI)
    fix i assume "i < length ts"
    then have "Suc i < length (t # ts)" by simp
    with Cons.prems have "snd (runModel E (runEach E m tr (take (Suc i) (t # ts))) m ((t # ts) ! Suc i)) = Returned None"
      by blast
    then show "snd (runModel E (runEach E m (fst (runModel E tr m t)) (take i ts)) m (ts ! i)) = Returned None"
      by (simp add: runEach_Cons)
  qed
  have "RunLoop E (fst (runModel E tr m t)) m ts = (runEach E m (fst (runModel E tr m t)) ts, Returned None)"
    by (rule Cons.IH [OF rest])
  with first show ?case
    by (cases "runModel E tr m t") (simp add: runEach_Cons)
qed

lemma RunLoop_first_error:
  assumes "k < length ts"
    and "\<forall>i<k. snd (runModel E (runEach E m tr (take i ts)) m (ts ! i)) = Returned None"
    and "snd (runModel E (runEach E m tr (take k ts)) m (ts ! k)) = Returned (Some err)"
  shows "RunLoop E tr m ts = (runEach E m tr (take (Suc k) ts), Returned (Some err))"
  using assms
proof (induction ts arbitrary: tr k)
  case Nil
  then show ?case by simp
next
  case (Cons t ts)
  show ?case
  proof (cases k)
    case 0
    with Cons.prems(3) have "snd (runModel E tr m t) = Returned (Some err)"
      by (simp add: runEach_Nil)
    then show ?thesis
      using 0 by (cases "runModel E tr m t") (simp add: runEach_Cons runEach_Nil)
  next
    case (Suc j)
    from Cons.prems(2) Suc have "snd (runModel E (runEach E m tr (take 0 (t # ts))) m ((t # ts) ! 0)) = Returned None"
      by blast
    then have first: "snd (runModel E tr m t) = Returned None"
      by (simp add: runEach_Nil)
    have j: "j < length ts" using Cons.prems(1) Suc by simp
    have before: "\<forall>i<j. snd (runModel E (runEach E m (fst (runModel E tr m t)) (take i ts)) m (ts ! i)) = Returned None"
    proof (intro allI impI)
      fix i assume "i < j"
      then have "Suc i < k" using Suc by simp
      with Cons.prems(2) have "snd (runModel E (runEach E m tr (take (Suc i) (t # ts))) m ((t # ts) ! Suc i)) = Returned None"
        by blast
      then show "snd (runModel E (runEach E m (fst (runModel E tr m t)) (take i ts)) m (ts ! i)) = Returned None"
        by (simp add: runEach_Cons)
    qed
    have at: "snd (runModel E (runEach E m (fst (runModel E tr m t)) (take j ts)) m (ts ! j)) = Returned (Some err)"
      using Cons.prems(3) Suc by (simp add: runEach_Cons)
    have "RunLoop E (fst (runModel E tr m t)) m ts =
            (runEach E m (fst (runModel E tr m t)) (take (Suc j) ts), Returned (Some err))"
      by (rule Cons.IH [OF j before at])
    with first show ?thesis
      using Suc by (cases "runModel E tr m t") (simp add: runEach_Cons)
  qed
qed

text \<open>
  C3. \<open>Run\<close> calls \<open>runModel\<close> on the targets in the order of their declaration, each
  from the trace the previous one left. With no target it returns nil; if every target
  returns nil it returns nil after the last one; if target \<open>k\<close> is the first to return an
  error, \<open>Run\<close> returns that error and its trace is the trace after the first \<open>k + 1\<close>
  targets: \<open>runModel\<close> is not called on a later one.
\<close>

theorem Run_fail_fast:
  "(Databases m = [] \<longrightarrow> Run E tr m = (tr, Returned None)) \<and>
   ((\<forall>i<length (Databases m).
        snd (runModel E (runEach E m tr (take i (Databases m))) m (Databases m ! i)) = Returned None)
      \<longrightarrow> Run E tr m = (runEach E m tr (Databases m), Returned None)) \<and>
   (\<forall>k err.
      k < length (Databases m) \<and>
      (\<forall>i<k. snd (runModel E (runEach E m tr (take i (Databases m))) m (Databases m ! i)) = Returned None) \<and>
      snd (runModel E (runEach E m tr (take k (Databases m))) m (Databases m ! k)) = Returned (Some err)
      \<longrightarrow> Run E tr m = (runEach E m tr (take (Suc k) (Databases m)), Returned (Some err)))"
proof (intro conjI allI impI)
  assume "Databases m = []"
  then show "Run E tr m = (tr, Returned None)" by (simp add: Run_def)
next
  assume a: "\<forall>i<length (Databases m).
        snd (runModel E (runEach E m tr (take i (Databases m))) m (Databases m ! i)) = Returned None"
  show "Run E tr m = (runEach E m tr (Databases m), Returned None)"
    using RunLoop_all_nil [OF a] by (simp add: Run_def runEach_Nil)
next
  fix k err
  assume a: "k < length (Databases m) \<and>
      (\<forall>i<k. snd (runModel E (runEach E m tr (take i (Databases m))) m (Databases m ! i)) = Returned None) \<and>
      snd (runModel E (runEach E m tr (take k (Databases m))) m (Databases m ! k)) = Returned (Some err)"
  then have "RunLoop E tr m (Databases m) = (runEach E m tr (take (Suc k) (Databases m)), Returned (Some err))"
    using RunLoop_first_error [of k "Databases m" E m tr err] by blast
  with a show "Run E tr m = (runEach E m tr (take (Suc k) (Databases m)), Returned (Some err))"
    by (auto simp add: Run_def)
qed

text \<open>The first two targets of the sample model, evaluated.\<close>

lemmas runModel_defs =
  runModel_def performPhase_def afterPerform_def afterHook_def runHook_def newBase_def
  dispatch_def openTunneling_def recvTunnelStart_def closeTunneling_def tunnelSettings_def
  make_chan_def Let_def

lemma sample_mysql_run:
  "runModel sample_env [] sample_model sample_mysql =
     ([MkdirP ''/tmp/dump/mysql/main'',
       Log ''Database'' Info [''=> database | mysql: main''],
       Init MySQL, Perform MySQL,
       Log ''Database'' Info [''Dump succeeded''],
       Log ''Database'' Info [''Run dump after_script''],
       Exec ''notify.sh'' [],
       Log ''Database'' Info [''Run dump after_script succeeded'']],
      Returned None)"
  by (simp add: runModel_defs sample_defs)

lemma sample_redis_run:
  "runModel sample_env tr sample_model sample_redis =
     (tr @ [MkdirP ''/tmp/dump/redis/cache'',
       Log ''Database'' Info [''=> database | redis: cache''],
       Log ''Database'' Info [''Run dump before_script''],
       Exec ''exit'' [''1'']],
      Returned (Some ''Run dump before_script failed: executable file not found''))"
  by (simp add: runModel_defs sample_defs)

theorem Run_fail_fast_witness:
  "Databases sample_model = [sample_mysql, sample_redis, sample_clickhouse] \<and>
   Run sample_env [] sample_model =
     ([MkdirP ''/tmp/dump/mysql/main'',
       Log ''Database'' Info [''=> database | mysql: main''],
       Init MySQL, Perform MySQL,
       Log ''Database'' Info [''Dump succeeded''],
       Log ''Database'' Info [''Run dump after_script''],
       Exec ''notify.sh'' [],
       Log ''Database'' Info [''Run dump after_script succeeded''],
       MkdirP ''/tmp/dump/redis/cache'',
       Log ''Database'' Info [''=> database | redis: cache''],
       Log ''Database'' Info [''Run dump before_script''],
       Exec ''exit'' [''1'']],
      Returned (Some ''Run dump before_script failed: executable file not found''))"
proof -
  have dbs: "Databases sample_model = [sample_mysql, sample_redis, sample_clickhouse]"
    by (simp add: sample_model_def)
  have k: "Suc 0 < length (Databases sample_model)" by (simp add: dbs)
  have before: "\<forall>i<Suc 0. snd (runModel sample_env
                   (runEach sample_env sample_model [] (take i (Databases sample_model)))
                   sample_model (Databases sample_model ! i)) = Returned None"
    by (simp add: dbs runEach_def sample_mysql_run)
  have at: "snd (runModel sample_env
                   (runEach sample_env sample_model [] (take (Suc 0) (Databases sample_model)))
                   sample_model (Databases sample_model ! Suc 0))
            = Returned (Some ''Run dump before_script failed: executable file not found'')"
    by (simp add: dbs runEach_def sample_redis_run)
  have "Run sample_env [] sample_model =
          (runEach sample_env sample_model [] (take (Suc (Suc 0)) (Databases sample_model)),
           Returned (Some ''Run dump before_script failed: executable file not found''))"
    using Run_fail_fast [of sample_model sample_env "[]"] k before at by blast
  then show ?thesis
    by (simp add: dbs runEach_def sample_mysql_run sample_redis_run)
qed

subsection \<open>A target of a type that has no performer\<close>

lemma sample_mysql_run_from:
  "runModel sample_env tr sample_model sample_mysql =
     (tr @ [MkdirP ''/tmp/dump/mysql/main'',
       Log ''Database'' Info [''=> database | mysql: main''],
       Init MySQL, Perform MySQL,
       Log ''Database'' Info [''Dump succeeded''],
       Log ''Database'' Info [''Run dump after_script''],
       Exec ''notify.sh'' [],
       Log ''Database'' Info [''Run dump after_script succeeded'']],
      Returned None)"
  by (simp add: runModel_defs sample_defs)

text \<open>
  C2. For every target whose type tag is none of the seven implemented ones, \<open>runModel\<close>
  builds the context, logs one warning and returns nil; the trace gains no \<open>init\<close>, no
  \<open>perform\<close>, no tunnel event and no hook event. The loop of \<open>Run\<close> then goes on from that
  trace with the targets that follow: if the next one does not return nil, the loop ends
  with exactly what \<open>runModel\<close> gives for it; if all that follow return nil, \<open>runModel\<close> is
  run on every one of them; and if the \<open>k\<close>-th of them is the first to return an error,
  \<open>runModel\<close> is run on those up to it.
\<close>

theorem runModel_unimplemented_type:
  assumes "SubConfig.Type cfg \<notin>
             set [''mysql'', ''redis'', ''postgresql'', ''mongodb'', ''sqlite'', ''mssql'', ''influxdb2'']"
  shows "runModel E tr m cfg =
           (fst (newBase E tr m cfg) @
              [Log ''Database'' Warn
                 [''model: '' @ ModelConfig.Name m @ '' databases.'' @ SubConfig.Name cfg
                  @ '' config `type: '' @ SubConfig.Type cfg @ ''`, but is not implement'']],
            Returned None) \<and>
         performer_events (fst (runModel E tr m cfg)) = performer_events tr \<and>
         hook_events (fst (runModel E tr m cfg)) = hook_events tr \<and>
         RunLoop E tr m (cfg # rest) = RunLoop E (fst (runModel E tr m cfg)) m rest \<and>
         (\<forall>next rest'. rest = next # rest' \<and>
            snd (runModel E (fst (runModel E tr m cfg)) m next) \<noteq> Returned None \<longrightarrow>
            RunLoop E tr m (cfg # rest) = runModel E (fst (runModel E tr m cfg)) m next) \<and>
         ((\<forall>i<length rest.
             snd (runModel E (runEach E m (fst (runModel E tr m cfg)) (take i rest)) m (rest ! i))
               = Returned None) \<longrightarrow>
            RunLoop E tr m (cfg # rest) =
              (runEach E m (fst (runModel E tr m cfg)) rest, Returned None)) \<and>
         (\<forall>k err.
            k < length rest \<and>
            (\<forall>i<k. snd (runModel E (runEach E m (fst (runModel E tr m cfg)) (take i rest)) m (rest ! i))
                      = Returned None) \<and>
            snd (runModel E (runEach E m (fst (runModel E tr m cfg)) (take k rest)) m (rest ! k))
              = Returned (Some err) \<longrightarrow>
            RunLoop E tr m (cfg # rest) =
              (runEach E m (fst (runModel E tr m cfg)) (take (Suc k) rest), Returned (Some err)))"
proof -
  let ?tr1 = "fst (runModel E tr m cfg)"
  have d: "dispatch (SubConfig.Type cfg) = None"
    by (rule iffD2 [OF dispatch_None]) (rule assms)
  have r: "runModel E tr m cfg =
           (fst (newBase E tr m cfg) @
              [Log ''Database'' Warn
                 [''model: '' @ ModelConfig.Name m @ '' databases.'' @ SubConfig.Name cfg
                  @ '' config `type: '' @ SubConfig.Type cfg @ ''`, but is not implement'']],
            Returned None)"
    by (simp add: runModel_def d split: prod.splits)
  have p: "performer_events ?tr1 = performer_events tr"
    using newBase_performer_events [of E tr m cfg]
    by (simp add: r performer_events_def is_performer_event_def)
  have h: "hook_events ?tr1 = hook_events tr"
    using newBase_hook_events [of E tr m cfg]
    by (simp add: r hook_events_def is_hook_event_def HasPrefix_def)
  have l: "RunLoop E tr m (cfg # rest) = RunLoop E ?tr1 m rest"
    by (simp add: r)
  have n: "\<forall>next rest'. rest = next # rest' \<and>
            snd (runModel E ?tr1 m next) \<noteq> Returned None \<longrightarrow>
            RunLoop E tr m (cfg # rest) = runModel E ?tr1 m next"
  proof (intro allI impI)
    fix nxt rest'
    assume a: "rest = nxt # rest' \<and> snd (runModel E ?tr1 m nxt) \<noteq> Returned None"
    then show "RunLoop E tr m (cfg # rest) = runModel E ?tr1 m nxt"
      unfolding l
      by (cases "runModel E ?tr1 m nxt")
        (auto split: outcome.splits option.splits)
  qed
  have a: "(\<forall>i<length rest.
             snd (runModel E (runEach E m ?tr1 (take i rest)) m (rest ! i)) = Returned None) \<longrightarrow>
            RunLoop E tr m (cfg # rest) = (runEach E m ?tr1 rest, Returned None)"
    unfolding l using RunLoop_all_nil [of rest E m ?tr1] by blast
  have e: "\<forall>k err.
            k < length rest \<and>
            (\<forall>i<k. snd (runModel E (runEach E m ?tr1 (take i rest)) m (rest ! i)) = Returned None) \<and>
            snd (runModel E (runEach E m ?tr1 (take k rest)) m (rest ! k)) = Returned (Some err) \<longrightarrow>
            RunLoop E tr m (cfg # rest) =
              (runEach E m ?tr1 (take (Suc k) rest), Returned (Some err))"
    unfolding l using RunLoop_first_error [of _ rest E m ?tr1] by blast
  from r p h l n a e show ?thesis by blast
qed

theorem runModel_unimplemented_type_witness:
  "SubConfig.Type sample_clickhouse \<notin>
     set [''mysql'', ''redis'', ''postgresql'', ''mongodb'', ''sqlite'', ''mssql'', ''influxdb2''] \<and>
   runModel sample_env [] sample_model sample_clickhouse =
     ([MkdirP ''/tmp/dump/clickhouse/events'',
       Log ''Database'' Warn
         [''model: daily databases.events config `type: clickhouse`, but is not implement'']],
      Returned None) \<and>
   performer_events (fst (runModel sample_env [] sample_model sample_clickhouse)) = [] \<and>
   hook_events (fst (runModel sample_env [] sample_model sample_clickhouse)) = [] \<and>
   RunLoop sample_env [] sample_model [sample_clickhouse, sample_mysql] =
     ([MkdirP ''/tmp/dump/clickhouse/events'',
       Log ''Database'' Warn
         [''model: daily databases.events config `type: clickhouse`, but is not implement''],
       MkdirP ''/tmp/dump/mysql/main'',
       Log ''Database'' Info [''=> database | mysql: main''],
       Init MySQL, Perform MySQL,
       Log ''Database'' Info [''Dump succeeded''],
       Log ''Database'' Info [''Run dump after_script''],
       Exec ''notify.sh'' [],
       Log ''Database'' Info [''Run dump after_script succeeded'']],
      Returned None) \<and>
   RunLoop sample_env [] sample_model [sample_clickhouse, sample_redis, sample_mysql] =
     ([MkdirP ''/tmp/dump/clickhouse/events'',
       Log ''Database'' Warn
         [''model: daily databases.events config `type: clickhouse`, but is not implement''],
       MkdirP ''/tmp/dump/redis/cache'',
       Log ''Database'' Info [''=> database | redis: cache''],
       Log ''Database'' Info [''Run dump before_script''],
       Exec ''exit'' [''1'']],
      Returned (Some ''Run dump before_script failed: executable file not found''))"
proof -
  let ?tr1 = "[MkdirP ''/tmp/dump/clickhouse/events'',
       Log ''Database'' Warn
         [''model: daily databases.events config `type: clickhouse`, but is not implement'']]"
  have h: "SubConfig.Type sample_clickhouse \<notin>
     set [''mysql'', ''redis'', ''postgresql'', ''mongodb'', ''sqlite'', ''mssql'', ''influxdb2'']"
    by (simp add: sample_clickhouse_def)
  have nb: "fst (newBase sample_env [] sample_model sample_clickhouse) =
              [MkdirP ''/tmp/dump/clickhouse/events'']"
    by (simp add: newBase_def Let_def sample_defs)
  have nm: "ModelConfig.Name sample_model = ''daily''" "SubConfig.Name sample_clickhouse = ''events''"
    "SubConfig.Type sample_clickhouse = ''clickhouse''"
    by (simp_all add: sample_defs)
  have r: "runModel sample_env [] sample_model sample_clickhouse = (?tr1, Returned None)"
    using runModel_unimplemented_type [OF h, of sample_env "[]" sample_model "[]"]
    by (simp add: nb nm)
  have pe: "performer_events ?tr1 = []" "hook_events ?tr1 = []"
    by (simp_all add: performer_events_def hook_events_def is_performer_event_def
        is_hook_event_def HasPrefix_def)
  have all: "\<forall>i<length [sample_mysql].
               snd (runModel sample_env
                      (runEach sample_env sample_model
                         (fst (runModel sample_env [] sample_model sample_clickhouse))
                         (take i [sample_mysql]))
                      sample_model ([sample_mysql] ! i)) = Returned None"
    by (simp add: r runEach_def sample_mysql_run_from)
  have l1: "RunLoop sample_env [] sample_model [sample_clickhouse, sample_mysql] =
              (runEach sample_env sample_model
                 (fst (runModel sample_env [] sample_model sample_clickhouse)) [sample_mysql],
               Returned None)"
    using runModel_unimplemented_type [OF h, of sample_env "[]" sample_model "[sample_mysql]"] all
    by blast
  have nx: "snd (runModel sample_env
                   (fst (runModel sample_env [] sample_model sample_clickhouse))
                   sample_model sample_redis) \<noteq> Returned None"
    by (simp add: sample_redis_run)
  have l2: "RunLoop sample_env [] sample_model [sample_clickhouse, sample_redis, sample_mysql] =
              runModel sample_env (fst (runModel sample_env [] sample_model sample_clickhouse))
                sample_model sample_redis"
    using runModel_unimplemented_type [OF h, of sample_env "[]" sample_model
            "[sample_redis, sample_mysql]"] nx
    by blast
  show ?thesis
    using h by (simp add: l1 l2 r pe runEach_def sample_mysql_run_from sample_redis_run)
qed

subsection \<open>After-script policy\<close>

text \<open>
  When the type is implemented, the before hook and \<open>init\<close> return nil and the tunnel (if
  one is opened) becomes ready, \<open>runModel\<close> is \<open>afterPerform\<close> applied to what \<open>perform\<close>
  returned, at the trace \<open>init\<close>, (open tunnel, ready signal,) \<open>perform\<close>, (stop signal).
\<close>

lemma afterHook_eq:
  "afterHook E tr afterScript err =
     (fst (runHook E tr ''dump after_script'' afterScript),
      hookErrorElse err (snd (runHook E tr ''dump after_script'' afterScript)))"
  by (simp add: afterHook_def hookErrorElse_def split: prod.splits outcome.splits option.splits)

lemma runModel_reaches_policy:
  assumes d: "dispatch (SubConfig.Type cfg) = Some db"
    and nb: "newBase E tr m cfg = (tr0, base)"
    and bh: "runHook E
               (tr0 @ [Log ''Database'' Info
                         [''=> database | '' @ SubConfig.Type cfg @ '': '' @ SubConfig.Name cfg]])
               ''dump before_script'' (GetString (SubConfig.Viper cfg) ''before_script'')
             = (tr2, Returned None)"
    and ini: "db_init E tr2 db base = None"
    and tun: "sshHost base \<noteq> '''' \<longrightarrow>
                tunnel_ready E (tr2 @ [Init db, OpenTunnel (tunnelSettings base)])"
    and tr3: "tr3 = tr2 @ [Init db] @
                (if sshHost base \<noteq> '''' then [OpenTunnel (tunnelSettings base), RecvTunnelStart]
                 else [])"
    and tr4: "tr4 = tr3 @ [Perform db] @ (if sshHost base \<noteq> '''' then [SendTunnelEnd] else [])"
  shows "runModel E tr m cfg =
           afterPerform E tr4 (GetString (SubConfig.Viper cfg) ''after_script'')
             (GetString (SubConfig.Viper cfg) ''on_exit'') (db_perform E tr3 db base)"
proof -
  have nm: "name base = SubConfig.Name cfg" using newBase_name [of E tr m cfg] by (simp add: nb)
  have r: "runModel E tr m cfg =
             performPhase E tr2 db base (GetString (SubConfig.Viper cfg) ''after_script'')
               (GetString (SubConfig.Viper cfg) ''on_exit'')"
    using d bh by (simp add: runModel_def nb nm Let_def)
  show ?thesis
  proof (cases "sshHost base = ''''")
    case True
    then show ?thesis
      using ini by (simp add: r performPhase_def tr3 tr4)
  next
    case False
    then show ?thesis
      using ini tun
      by (simp add: r performPhase_def tr3 tr4 openTunneling_def recvTunnelStart_def
          closeTunneling_def make_chan_def)
  qed
qed

lemma runHook_hook_events_grow:
  assumes "script \<noteq> ''''"
  shows "length (hook_events tr) < length (hook_events (fst (runHook E tr action script)))"
  using assms
  by (simp add: runHook_def Let_def hook_events_def is_hook_event_def HasPrefix_def
      split: sum.splits list.splits option.splits)

lemma runHook_empty: "runHook E tr action '''' = (tr, Returned None)"
  by (simp add: runHook_def)


lemma hook_events_append: "hook_events (xs @ ys) = hook_events xs @ hook_events ys"
  by (simp add: hook_events_def)

lemma hook_events_policy_logs:
  "hook_events [Log ''Database'' Info [''Dump failed'']] = []"
  "hook_events [Log ''Database'' Info [''Dump succeeded'']] = []"
  "hook_events [Log ''Database'' Info [''on_exit is always, start to run after_script'']] = []"
  "hook_events [Log ''Database'' Info [''on_exit is success, skip run after_script'']] = []"
  "hook_events [Log ''Database'' Info [''on_exit is failure, start to run after_script'']] = []"
  by (simp_all add: hook_events_def is_hook_event_def HasPrefix_def)

lemma afterPerform_hook_started:
  "length (hook_events tr) < length (hook_events (fst (afterPerform E tr afterScript onExit perr)))
   \<longleftrightarrow> afterScript \<noteq> '''' \<and> (perr = None \<or> onExit = ''always'' \<or> onExit = ''failure'')"
proof (cases "afterScript = ''''")
  case True
  then show ?thesis
    by (cases perr)
      (simp_all add: afterPerform_def afterHook_eq runHook_empty hook_events_append
        hook_events_policy_logs Let_def)
next
  case False
  have g: "\<And>logs. hook_events logs = [] \<Longrightarrow>
             length (hook_events tr) <
             length (hook_events (fst (runHook E (tr @ logs) ''dump after_script'' afterScript)))"
    using runHook_hook_events_grow [OF False] by (metis append_Nil2 hook_events_append)
  show ?thesis
  proof (cases perr)
    case None
    then show ?thesis
      using False g [of "[Log ''Database'' Info [''Dump succeeded'']]"]
      by (simp add: afterPerform_def afterHook_eq hook_events_policy_logs)
  next
    case (Some e)
    then show ?thesis
      using False
        g [of "[Log ''Database'' Info [''Dump failed''],
                Log ''Database'' Info [''on_exit is always, start to run after_script'']]"]
        g [of "[Log ''Database'' Info [''Dump failed''],
                Log ''Database'' Info [''on_exit is failure, start to run after_script'']]"]
      by (simp add: afterPerform_def afterHook_eq hook_events_append hook_events_policy_logs
          Let_def hook_events_def is_hook_event_def HasPrefix_def)
  qed
qed

text \<open>
  The after-script policy of a target that gets as far as \<open>perform\<close>, in terms of the
  outcome of the hook. If \<open>perform\<close> succeeds the hook runs and the result is the hook's
  error, else nil. If \<open>perform\<close> fails with \<open>e\<close>: with an empty after script, or a
  non-empty one and \<open>on_exit\<close> unset, \<open>success\<close> or any unknown value, the hook is skipped and
  the result is \<open>e\<close>; with a non-empty after script and \<open>on_exit\<close> equal to \<open>always\<close> or
  \<open>failure\<close> the hook runs and the result is the hook's error, else \<open>e\<close>. A hook that panics
  makes \<open>runModel\<close> panic. A hook event is added after \<open>perform\<close> exactly when the after
  script is non-empty and \<open>perform\<close> succeeded or \<open>on_exit\<close> is \<open>always\<close> or \<open>failure\<close>.
\<close>

lemma runModel_after_script_policy:
  assumes d: "dispatch (SubConfig.Type cfg) = Some db"
    and nb: "newBase E tr m cfg = (tr0, base)"
    and bh: "runHook E
               (tr0 @ [Log ''Database'' Info
                         [''=> database | '' @ SubConfig.Type cfg @ '': '' @ SubConfig.Name cfg]])
               ''dump before_script'' (GetString (SubConfig.Viper cfg) ''before_script'')
             = (tr2, Returned None)"
    and ini: "db_init E tr2 db base = None"
    and tun: "sshHost base \<noteq> '''' \<longrightarrow>
                tunnel_ready E (tr2 @ [Init db, OpenTunnel (tunnelSettings base)])"
    and tr3: "tr3 = tr2 @ [Init db] @
                (if sshHost base \<noteq> '''' then [OpenTunnel (tunnelSettings base), RecvTunnelStart]
                 else [])"
    and tr4: "tr4 = tr3 @ [Perform db] @ (if sshHost base \<noteq> '''' then [SendTunnelEnd] else [])"
    and pe: "perr = db_perform E tr3 db base"
    and sc: "afterScript = GetString (SubConfig.Viper cfg) ''after_script''"
    and oe: "onExit = GetString (SubConfig.Viper cfg) ''on_exit''"
  shows
    "(perr = None \<longrightarrow>
        runModel E tr m cfg =
          (fst (runHook E (tr4 @ [Log ''Database'' Info [''Dump succeeded'']])
                  ''dump after_script'' afterScript),
           hookErrorElse None
             (snd (runHook E (tr4 @ [Log ''Database'' Info [''Dump succeeded'']])
                     ''dump after_script'' afterScript)))) \<and>
     (\<forall>e. perr = Some e \<and> afterScript = '''' \<longrightarrow>
        runModel E tr m cfg =
          (tr4 @ [Log ''Database'' Info [''Dump failed'']], Returned (Some e))) \<and>
     (\<forall>e. perr = Some e \<and> afterScript \<noteq> '''' \<and> onExit = '''' \<longrightarrow>
        runModel E tr m cfg =
          (tr4 @ [Log ''Database'' Info [''Dump failed'']], Returned (Some e))) \<and>
     (\<forall>e. perr = Some e \<and> afterScript \<noteq> '''' \<and> onExit = ''always'' \<longrightarrow>
        runModel E tr m cfg =
          (fst (runHook E
                  (tr4 @ [Log ''Database'' Info [''Dump failed''],
                          Log ''Database'' Info [''on_exit is always, start to run after_script'']])
                  ''dump after_script'' afterScript),
           hookErrorElse (Some e)
             (snd (runHook E
                  (tr4 @ [Log ''Database'' Info [''Dump failed''],
                          Log ''Database'' Info [''on_exit is always, start to run after_script'']])
                  ''dump after_script'' afterScript)))) \<and>
     (\<forall>e. perr = Some e \<and> afterScript \<noteq> '''' \<and> onExit = ''success'' \<longrightarrow>
        runModel E tr m cfg =
          (tr4 @ [Log ''Database'' Info [''Dump failed''],
                  Log ''Database'' Info [''on_exit is success, skip run after_script'']],
           Returned (Some e))) \<and>
     (\<forall>e. perr = Some e \<and> afterScript \<noteq> '''' \<and> onExit = ''failure'' \<longrightarrow>
        runModel E tr m cfg =
          (fst (runHook E
                  (tr4 @ [Log ''Database'' Info [''Dump failed''],
                          Log ''Database'' Info [''on_exit is failure, start to run after_script'']])
                  ''dump after_script'' afterScript),
           hookErrorElse (Some e)
             (snd (runHook E
                  (tr4 @ [Log ''Database'' Info [''Dump failed''],
                          Log ''Database'' Info [''on_exit is failure, start to run after_script'']])
                  ''dump after_script'' afterScript)))) \<and>
     (\<forall>e. perr = Some e \<and> afterScript \<noteq> '''' \<and>
          onExit \<notin> set ['''', ''always'', ''success'', ''failure''] \<longrightarrow>
        runModel E tr m cfg =
          (tr4 @ [Log ''Database'' Info [''Dump failed'']], Returned (Some e))) \<and>
     (length (hook_events tr4) < length (hook_events (fst (runModel E tr m cfg))) \<longleftrightarrow>
        afterScript \<noteq> '''' \<and> (perr = None \<or> onExit = ''always'' \<or> onExit = ''failure''))"
proof -
  have r: "runModel E tr m cfg = afterPerform E tr4 afterScript onExit perr"
    unfolding pe sc oe by (rule runModel_reaches_policy [OF d nb bh ini tun tr3 tr4])
  show ?thesis
    unfolding r
    by (intro conjI; (rule afterPerform_hook_started | simp add: afterPerform_def afterHook_eq Let_def))
qed

lemma runModel_after_script_policy_example:
  "dispatch (SubConfig.Type sample_mysql_notify) = Some MySQL \<and>
   db_perform failing_env
     [MkdirP ''/tmp/dump/mysql/orders'', Log ''Database'' Info [''=> database | mysql: orders''],
      Init MySQL] MySQL (snd (newBase failing_env [] sample_model sample_mysql_notify))
     = Some ''mysqldump: exit status 2'' \<and>
   GetString (SubConfig.Viper sample_mysql_notify) ''after_script'' = ''notify.sh failed'' \<and>
   GetString (SubConfig.Viper sample_mysql_notify) ''on_exit'' = ''failure'' \<and>
   runModel failing_env [] sample_model sample_mysql_notify =
     ([MkdirP ''/tmp/dump/mysql/orders'',
       Log ''Database'' Info [''=> database | mysql: orders''],
       Init MySQL, Perform MySQL,
       Log ''Database'' Info [''Dump failed''],
       Log ''Database'' Info [''on_exit is failure, start to run after_script''],
       Log ''Database'' Info [''Run dump after_script''],
       Exec ''notify.sh'' [''failed''],
       Log ''Database'' Info [''Run dump after_script succeeded'']],
      Returned (Some ''mysqldump: exit status 2''))"
proof -
  let ?E = failing_env and ?cfg = sample_mysql_notify
  let ?base = "snd (newBase ?E [] sample_model ?cfg)"
  let ?tr2 = "[MkdirP ''/tmp/dump/mysql/orders'',
               Log ''Database'' Info [''=> database | mysql: orders'']]"
  have d: "dispatch (SubConfig.Type ?cfg) = Some MySQL"
    by (simp add: dispatch_def sample_mysql_notify_def)
  have nbt: "fst (newBase ?E [] sample_model ?cfg) = [MkdirP ''/tmp/dump/mysql/orders'']"
    by (simp add: newBase_def Let_def failing_env_def sample_mysql_notify_def sample_defs)
  have nb: "newBase ?E [] sample_model ?cfg = ([MkdirP ''/tmp/dump/mysql/orders''], ?base)"
    using nbt by (cases "newBase ?E [] sample_model ?cfg") simp
  have host: "sshHost ?base = ''''"
    by (simp add: newBase_def Let_def failing_env_def sample_defs split: option.splits)
  have bh: "runHook ?E
               ([MkdirP ''/tmp/dump/mysql/orders''] @
                [Log ''Database'' Info
                   [''=> database | '' @ SubConfig.Type ?cfg @ '': '' @ SubConfig.Name ?cfg]])
               ''dump before_script'' (GetString (SubConfig.Viper ?cfg) ''before_script'')
             = (?tr2, Returned None)"
    by (simp add: runHook_def sample_mysql_notify_def viper_of_def)
  have ini: "db_init ?E ?tr2 MySQL ?base = None"
    by (simp add: failing_env_def sample_env_def)
  have tun: "sshHost ?base \<noteq> '''' \<longrightarrow>
               tunnel_ready ?E (?tr2 @ [Init MySQL, OpenTunnel (tunnelSettings ?base)])"
    by (simp add: host)
  have pe: "db_perform ?E (?tr2 @ [Init MySQL]) MySQL ?base = Some ''mysqldump: exit status 2''"
    by (simp add: failing_env_def)
  have sc: "GetString (SubConfig.Viper ?cfg) ''after_script'' = ''notify.sh failed''"
    and oe: "GetString (SubConfig.Viper ?cfg) ''on_exit'' = ''failure''"
    by (simp_all add: sample_mysql_notify_def viper_of_def)
  have hook: "runHook ?E
                [MkdirP ''/tmp/dump/mysql/orders'',
                 Log ''Database'' Info [''=> database | mysql: orders''],
                 Init MySQL, Perform MySQL, Log ''Database'' Info [''Dump failed''],
                 Log ''Database'' Info [''on_exit is failure, start to run after_script'']]
                ''dump after_script'' ''notify.sh failed''
              = ([MkdirP ''/tmp/dump/mysql/orders'',
                  Log ''Database'' Info [''=> database | mysql: orders''],
                  Init MySQL, Perform MySQL, Log ''Database'' Info [''Dump failed''],
                  Log ''Database'' Info [''on_exit is failure, start to run after_script''],
                  Log ''Database'' Info [''Run dump after_script''],
                  Exec ''notify.sh'' [''failed''],
                  Log ''Database'' Info [''Run dump after_script succeeded'']],
                 Returned None)"
    by (simp add: runHook_def Let_def failing_env_def sample_defs)
  show ?thesis
    using d pe sc oe
      runModel_after_script_policy [OF d nb bh ini tun refl refl refl refl refl]
    by (simp add: host hook hookErrorElse_def)
qed

text \<open>
  C1. In every tabulated combination \<open>runModel\<close> is to return the error of the table. For
  the after script that is the prefix \<open>-\<close> alone the hook runs in two of them (\<open>perform\<close>
  succeeds; \<open>perform\<close> fails and \<open>on_exit\<close> is \<open>always\<close>), and \<open>runModel\<close> returns neither
  nil nor the error of \<open>perform\<close>: it panics inside the hook.
\<close>

theorem runModel_after_script_dash_panics:
  "GetString (SubConfig.Viper sample_mysql_dash) ''after_script'' = ''-'' \<and>
   GetString (SubConfig.Viper sample_mysql_dash) ''on_exit'' = ''always'' \<and>
   runModel sample_env [] sample_model sample_mysql_dash =
     ([MkdirP ''/tmp/dump/mysql/main'',
       Log ''Database'' Info [''=> database | mysql: main''],
       Init MySQL, Perform MySQL,
       Log ''Database'' Info [''Dump succeeded''],
       Log ''Database'' Info [''Run dump after_script'']],
      Panicked ''index out of range [0] with length 0'') \<and>
   runModel failing_env [] sample_model sample_mysql_dash =
     ([MkdirP ''/tmp/dump/mysql/main'',
       Log ''Database'' Info [''=> database | mysql: main''],
       Init MySQL, Perform MySQL,
       Log ''Database'' Info [''Dump failed''],
       Log ''Database'' Info [''on_exit is always, start to run after_script''],
       Log ''Database'' Info [''Run dump after_script'']],
      Panicked ''index out of range [0] with length 0'')"
  by (simp add: runModel_defs failing_env_def sample_mysql_dash_def sample_defs)

subsection \<open>SSH settings and the tunnel\<close>

text \<open>
  Where the context gets its SSH and tunnel settings from: the process-wide viper
  instance, for every target. The instance of the target is kept in \<open>viper\<close>.
\<close>

lemma newBase_ssh_settings:
  "sshHost (snd (newBase E tr m cfg)) = GetString (global_viper E) ''ssh_host'' \<and>
   sshPort (snd (newBase E tr m cfg)) = GetInt (global_viper E) ''ssh_port'' \<and>
   sshUser (snd (newBase E tr m cfg)) = GetString (global_viper E) ''ssh_user'' \<and>
   sshPassword (snd (newBase E tr m cfg)) = GetString (global_viper E) ''ssh_password'' \<and>
   sshKeyFile (snd (newBase E tr m cfg)) = GetString (global_viper E) ''ssh_key_file'' \<and>
   tunnelDbHost (snd (newBase E tr m cfg)) = GetString (global_viper E) ''tunnel_db_host'' \<and>
   tunnelRemotePort (snd (newBase E tr m cfg)) = GetInt (global_viper E) ''tunnel_remote_port'' \<and>
   tunnelLocalPort (snd (newBase E tr m cfg)) = GetInt (global_viper E) ''tunnel_local_port'' \<and>
   viper (snd (newBase E tr m cfg)) = SubConfig.Viper cfg"
  by (simp add: newBase_def Let_def split: option.splits)

text \<open>
  C4. The context of a target is to take its SSH and tunnel settings from the target's
  own configuration, so that two targets with different \<open>ssh_host\<close> get different
  \<open>sshHost\<close>. Two targets that declare \<open>bastion-a\<close> and \<open>bastion-b\<close> get the same
  \<open>sshHost\<close>: the empty one when the process-wide instance has no \<open>ssh_host\<close>, and its
  \<open>ssh_host\<close> otherwise.
\<close>

theorem newBase_ignores_target_ssh_host:
  "GetString (SubConfig.Viper sample_pg_a) ''ssh_host'' = ''bastion-a'' \<and>
   GetString (SubConfig.Viper sample_pg_b) ''ssh_host'' = ''bastion-b'' \<and>
   sshHost (snd (newBase sample_env [] sample_model sample_pg_a)) = '''' \<and>
   sshHost (snd (newBase sample_env [] sample_model sample_pg_b)) = '''' \<and>
   sshHost (snd (newBase tunnel_env [] sample_model sample_pg_a)) = ''bastion'' \<and>
   sshHost (snd (newBase tunnel_env [] sample_model sample_pg_b)) = ''bastion''"
  by (simp add: newBase_def Let_def sample_pg_a_def sample_pg_b_def sample_env_def tunnel_env_def
      viper_of_def split: option.splits)

text \<open>
  The order of the performer and tunnel events of a target that gets as far as
  \<open>perform\<close>, by the \<open>sshHost\<close> of its context: with a non-empty one the tunnel is opened
  and its ready signal received before \<open>perform\<close>, and the stop signal is sent once, after
  \<open>perform\<close> and before the after-script policy; with an empty one there is no tunnel event.
  While the ready signal does not arrive, \<open>runModel\<close> stays blocked before \<open>perform\<close>.
\<close>

lemma afterPerform_performer_events:
  "performer_events (fst (afterPerform E tr afterScript onExit perr)) = performer_events tr"
proof -
  have h: "\<And>logs. performer_events logs = [] \<Longrightarrow>
            performer_events (fst (runHook E (tr @ logs) ''dump after_script'' afterScript)) =
            performer_events tr"
    by (simp add: runHook_performer_events) (simp add: performer_events_def)
  have l: "performer_events [Log ''Database'' Info [x]] = []"
          "performer_events [Log ''Database'' Info [x], Log ''Database'' Info [y]] = []" for x y
    by (simp_all add: performer_events_def is_performer_event_def)
  show ?thesis
    by (cases perr) (simp_all add: afterPerform_def afterHook_eq Let_def h l,
        simp_all add: performer_events_def is_performer_event_def)
qed

lemma runModel_tunnel_order:
  assumes d: "dispatch (SubConfig.Type cfg) = Some db"
    and nb: "newBase E tr m cfg = (tr0, base)"
    and bh: "runHook E
               (tr0 @ [Log ''Database'' Info
                         [''=> database | '' @ SubConfig.Type cfg @ '': '' @ SubConfig.Name cfg]])
               ''dump before_script'' (GetString (SubConfig.Viper cfg) ''before_script'')
             = (tr2, Returned None)"
    and ini: "db_init E tr2 db base = None"
    and tun: "sshHost base \<noteq> '''' \<longrightarrow>
                tunnel_ready E (tr2 @ [Init db, OpenTunnel (tunnelSettings base)])"
  shows "performer_events (fst (runModel E tr m cfg)) =
           performer_events tr @
           (if sshHost base \<noteq> ''''
            then [Init db, OpenTunnel (tunnelSettings base), RecvTunnelStart, Perform db, SendTunnelEnd]
            else [Init db, Perform db])"
proof -
  have "performer_events tr2 =
          performer_events (tr0 @ [Log ''Database'' Info
                         [''=> database | '' @ SubConfig.Type cfg @ '': '' @ SubConfig.Name cfg]])"
    using runHook_performer_events [of E "tr0 @ [Log ''Database'' Info
                         [''=> database | '' @ SubConfig.Type cfg @ '': '' @ SubConfig.Name cfg]]"
                  "''dump before_script''" "GetString (SubConfig.Viper cfg) ''before_script''"] bh
    by simp
  also have "\<dots> = performer_events tr"
    using newBase_performer_events [of E tr m cfg]
    by (simp add: nb performer_events_def is_performer_event_def)
  finally have tr2: "performer_events tr2 = performer_events tr" .
  have "performer_events (fst (runModel E tr m cfg)) =
          performer_events
            ((tr2 @ [Init db] @
                (if sshHost base \<noteq> '''' then [OpenTunnel (tunnelSettings base), RecvTunnelStart]
                 else [])) @ [Perform db] @ (if sshHost base \<noteq> '''' then [SendTunnelEnd] else []))"
    by (simp only: runModel_reaches_policy [OF d nb bh ini tun refl refl]
        afterPerform_performer_events)
  then show ?thesis
    using tr2 by (simp add: performer_events_def is_performer_event_def)
qed

lemma runModel_tunnel_not_ready:
  assumes d: "dispatch (SubConfig.Type cfg) = Some db"
    and nb: "newBase E tr m cfg = (tr0, base)"
    and bh: "runHook E
               (tr0 @ [Log ''Database'' Info
                         [''=> database | '' @ SubConfig.Type cfg @ '': '' @ SubConfig.Name cfg]])
               ''dump before_script'' (GetString (SubConfig.Viper cfg) ''before_script'')
             = (tr2, Returned None)"
    and ini: "db_init E tr2 db base = None"
    and host: "sshHost base \<noteq> ''''"
    and tun: "\<not> tunnel_ready E (tr2 @ [Init db, OpenTunnel (tunnelSettings base)])"
  shows "runModel E tr m cfg = (tr2 @ [Init db, OpenTunnel (tunnelSettings base)], Blocked)"
proof -
  have nm: "name base = SubConfig.Name cfg" using newBase_name [of E tr m cfg] by (simp add: nb)
  show ?thesis
    using d bh ini host tun
    by (simp add: runModel_def nb nm Let_def performPhase_def openTunneling_def
        recvTunnelStart_def)
qed

lemma tunnel_env_run:
  "runModel tunnel_env [] sample_model sample_mysql =
     ([MkdirP ''/tmp/dump/mysql/main'',
       Log ''Database'' Info [''=> database | mysql: main''],
       Init MySQL,
       OpenTunnel \<lparr>tun_localPort = 15432, tun_server = ''bastion'', tun_remotePort = 5432,
                   tun_port = 22, tun_user = ''backup'', tun_password = '''', tun_keyFile = None,
                   tun_remoteEndpoint = (''10.0.0.5'', 5432),
                   tun_localEndpoint = (''localhost'', 15432)\<rparr>,
       RecvTunnelStart, Perform MySQL, SendTunnelEnd,
       Log ''Database'' Info [''Dump succeeded''],
       Log ''Database'' Info [''Run dump after_script''],
       Exec ''notify.sh'' [],
       Log ''Database'' Info [''Run dump after_script succeeded'']],
      Returned None)"
  by (simp add: runModel_defs tunnel_env_def sample_defs)

text \<open>
  C5. A target that declares a non-empty SSH host is to get a tunnel around \<open>perform\<close>.
  The PostgreSQL target that declares \<open>bastion-a\<close> is dumped with no tunnel opened, no
  wait for a ready signal and no stop signal.
\<close>

theorem runModel_target_ssh_host_no_tunnel:
  "GetString (SubConfig.Viper sample_pg_a) ''ssh_host'' = ''bastion-a'' \<and>
   runModel sample_env [] sample_model sample_pg_a =
     ([MkdirP ''/tmp/dump/postgresql/users'',
       Log ''Database'' Info [''=> database | postgresql: users''],
       Init PostgreSQL, Perform PostgreSQL,
       Log ''Database'' Info [''Dump succeeded'']],
      Returned None)"
  by (simp add: runModel_defs sample_pg_a_def sample_defs)

subsection \<open>A connect attempt that fails before the tunnel has started\<close>

text \<open>
  The invariant holds at the start and is kept by every step of every task; the connect
  task finishes when it is given enough steps; and what it does at \<open>len(db.cTunnelStart)\<close>.
\<close>

lemma failed_start_inv_init:
  "StateStarted \<notin> set sts \<Longrightarrow> failed_start_inv err (tunnel_init db sts (Some err))"
  by (simp add: failed_start_inv_def tunnel_init_def make_chan_def)

lemma failed_start_inv_controller:
  "failed_start_inv err s \<Longrightarrow> failed_start_inv err (step_controller s)"
  by (simp add: failed_start_inv_def step_controller_def)

lemma failed_start_inv_watcher:
  "failed_start_inv err s \<Longrightarrow> failed_start_inv err (step_watcher s)"
  by (auto simp add: failed_start_inv_def step_watcher_def split: watch_pc.splits conn_pc.splits)

lemma failed_start_inv_connect:
  "failed_start_inv err s \<Longrightarrow> failed_start_inv err (step_connect s)"
  by (auto simp add: failed_start_inv_def step_connect_def
      split: conn_pc.splits list.splits ConnState.splits)

lemma failed_start_inv_step:
  "failed_start_inv err s \<Longrightarrow> failed_start_inv err (step t s)"
  by (cases t)
    (simp_all add: failed_start_inv_controller failed_start_inv_watcher failed_start_inv_connect)

lemma failed_start_inv_run:
  "failed_start_inv err s \<Longrightarrow> failed_start_inv err (run_schedule sched s)"
  by (induction sched arbitrary: s) (simp_all add: failed_start_inv_step)

lemma connect_finishes:
  assumes "sys_conn s = ConnStart sts" and "StateStarted \<notin> set sts"
    and "sys_startErr s = Some err" and "chan_len (sys_cTunnelStart s) = 0"
  shows "sys_conn (run_schedule (replicate (length sts + 2) Connect) s) = ConnDone"
  using assms
proof (induction sts arbitrary: s)
  case Nil
  then show ?case
    by (simp add: step_connect_def numeral_2_eq_2)
next
  case (Cons st sts)
  have c: "sys_conn (step_connect s) = ConnStart sts"
    and e: "sys_startErr (step_connect s) = Some err"
    and l: "chan_len (sys_cTunnelStart (step_connect s)) = 0"
    using Cons.prems by (cases st; simp add: step_connect_def)+
  from Cons.prems(2) have n: "StateStarted \<notin> set sts" by simp
  show ?case
    using Cons.IH [OF c n e l] by simp
qed

lemma check_len_empty:
  assumes "sys_conn s = ConnCheckLen" and "chan_len (sys_cTunnelStart s) = 0"
  shows "run_schedule [Connect, Connect] s = s\<lparr>sys_conn := ConnDone\<rparr>"
  using assms by (simp add: step_connect_def)

lemma check_len_queued:
  assumes "sys_conn s = ConnCheckLen" and "0 < chan_len (sys_cTunnelStart s)"
  shows "run_schedule [Connect, Connect] s =
           s\<lparr>sys_cTunnelStart := chan_recv (sys_cTunnelStart s), sys_conn := ConnDone,
              sys_trace := sys_trace s @ [DrainTunnelStart]\<rparr>"
  using assms by (simp add: step_connect_def)

text \<open>
  C8. When \<open>Start\<close> fails without having reported \<open>StateStarted\<close>, then in every
  interleaving of the three tasks the connect task sends no ready signal, nobody receives
  one, the ready channel stays empty and the controller is still waiting; the connect
  task, once done, has logged the error, and it is done after as many steps as there are
  reported states plus two. After the log it receives from the ready channel only if a
  signal is queued there.
\<close>

theorem failed_connect_never_ready:
  assumes "StateStarted \<notin> set sts"
  shows
    "SendTunnelStart \<notin> set (sys_trace (run_schedule sched (tunnel_init db sts (Some err)))) \<and>
     DrainTunnelStart \<notin> set (sys_trace (run_schedule sched (tunnel_init db sts (Some err)))) \<and>
     RecvTunnelStart \<notin> set (sys_trace (run_schedule sched (tunnel_init db sts (Some err)))) \<and>
     chan_len (sys_cTunnelStart (run_schedule sched (tunnel_init db sts (Some err)))) = 0 \<and>
     sys_ctl (run_schedule sched (tunnel_init db sts (Some err))) = CtlWaitReady \<and>
     (sys_conn (run_schedule sched (tunnel_init db sts (Some err))) = ConnDone \<longrightarrow>
        Log ''TUNNELING'' Info [''error tunneling:'', err]
          \<in> set (sys_trace (run_schedule sched (tunnel_init db sts (Some err))))) \<and>
     sys_conn (run_schedule (replicate (length sts + 2) Connect) (tunnel_init db sts (Some err)))
       = ConnDone \<and>
     (\<forall>s. sys_conn s = ConnCheckLen \<and> chan_len (sys_cTunnelStart s) = 0 \<longrightarrow>
        run_schedule [Connect, Connect] s = s\<lparr>sys_conn := ConnDone\<rparr>) \<and>
     (\<forall>s. sys_conn s = ConnCheckLen \<and> 0 < chan_len (sys_cTunnelStart s) \<longrightarrow>
        run_schedule [Connect, Connect] s =
          s\<lparr>sys_cTunnelStart := chan_recv (sys_cTunnelStart s), sys_conn := ConnDone,
             sys_trace := sys_trace s @ [DrainTunnelStart]\<rparr>)"
proof -
  let ?s = "run_schedule sched (tunnel_init db sts (Some err))"
  have inv: "failed_start_inv err ?s"
    by (rule failed_start_inv_run [OF failed_start_inv_init [OF assms]])
  have a: "SendTunnelStart \<notin> set (sys_trace ?s) \<and> DrainTunnelStart \<notin> set (sys_trace ?s) \<and>
           RecvTunnelStart \<notin> set (sys_trace ?s) \<and> chan_len (sys_cTunnelStart ?s) = 0 \<and>
           sys_ctl ?s = CtlWaitReady"
    using inv by (simp add: failed_start_inv_def)
  have b: "sys_conn ?s = ConnDone \<longrightarrow>
             Log ''TUNNELING'' Info [''error tunneling:'', err] \<in> set (sys_trace ?s)"
    using inv by (auto simp add: failed_start_inv_def)
  have c: "sys_conn (run_schedule (replicate (length sts + 2) Connect) (tunnel_init db sts (Some err)))
             = ConnDone"
    by (rule connect_finishes [OF _ assms]) (simp_all add: tunnel_init_def make_chan_def)
  from a b c check_len_empty check_len_queued show ?thesis by blast
qed

theorem failed_connect_never_ready_witness:
  "StateStarted \<notin> set [StateStarting, StateStopped] \<and>
   run_schedule [Connect, Controller, Connect, StopWatcher, Connect, Controller, Connect, Controller]
     (tunnel_init MySQL [StateStarting, StateStopped] (Some ''ssh dial failed'')) =
     \<lparr>sys_cTunnelStart = \<lparr>chan_cap = 1, chan_len = 0\<rparr>,
      sys_cTunnelEnd = \<lparr>chan_cap = 1, chan_len = 0\<rparr>,
      sys_ctl = CtlWaitReady, sys_watch = WatchWaitEnd, sys_conn = ConnDone,
      sys_startErr = Some ''ssh dial failed'', sys_db = MySQL,
      sys_trace =
        [Log ''TUNNELING'' Info [''Tunneling is Starting''],
         Log ''TUNNELING'' Info [''Tunneling is Stopped''],
         Log ''TUNNELING'' Info [''error tunneling:'', ''ssh dial failed'']]\<rparr> \<and>
   sys_ctl (run_schedule
              [Connect, Controller, Connect, StopWatcher, Connect, Controller, Connect, Controller]
              (tunnel_init MySQL [StateStarting, StateStopped] (Some ''ssh dial failed'')))
     = CtlWaitReady"
proof -
  have h: "StateStarted \<notin> set [StateStarting, StateStopped]" by simp
  have e: "run_schedule [Connect, Controller, Connect, StopWatcher, Connect, Controller, Connect, Controller]
     (tunnel_init MySQL [StateStarting, StateStopped] (Some ''ssh dial failed'')) =
     \<lparr>sys_cTunnelStart = \<lparr>chan_cap = 1, chan_len = 0\<rparr>,
      sys_cTunnelEnd = \<lparr>chan_cap = 1, chan_len = 0\<rparr>,
      sys_ctl = CtlWaitReady, sys_watch = WatchWaitEnd, sys_conn = ConnDone,
      sys_startErr = Some ''ssh dial failed'', sys_db = MySQL,
      sys_trace =
        [Log ''TUNNELING'' Info [''Tunneling is Starting''],
         Log ''TUNNELING'' Info [''Tunneling is Stopped''],
         Log ''TUNNELING'' Info [''error tunneling:'', ''ssh dial failed'']]\<rparr>"
    by (simp add: tunnel_init_def make_chan_def step_controller_def step_connect_def
        step_watcher_def)
  show ?thesis
    using h e failed_connect_never_ready [OF h,
        of "[Connect, Controller, Connect, StopWatcher, Connect, Controller, Connect, Controller]"
           MySQL "''ssh dial failed''"]
    by blast
qed

end
